theory Spec2Isabelle
  imports Main "HOL-Library.Word"
begin

unbundle bit_operations_syntax

section \<open>Bytes, errors and outcomes\<close>

text \<open>
  A Go byte slice is a list of 8-bit words; a nil slice and an empty slice are both the
  empty list (the code only appends to, measures and compares its slices). A Go string
  is its bytes.
\<close>

type_synonym byte = "8 word"
type_synonym bytes = "byte list"

definition bytes_of_string :: "string \<Rightarrow> bytes" where
  "bytes_of_string s = map of_char s"

text \<open>
  Error values. \<open>errors_New msg\<close> is Go's \<open>errors.New(msg)\<close>; the other two
  constructors stand for errors made by the libraries (the key size error of
  \<open>crypto/aes\<close>, and the errors of \<open>encoding/json\<close> and of ristretto255's decoders).
\<close>

datatype error =
    errors_New string
  | aes_KeySizeError nat
  | library_error string

text \<open>Run-time panics: the explicit \<open>panic\<close> calls of the code and of the libraries
  it calls, and the dereference of a nil pointer.\<close>

datatype panic =
    nil_dereference
  | could_not_get_entropy
  | could_not_derive_HKDF
  | uniform_bytes_length
  | blake2b_key_size

text \<open>
  The outcome of a call: it panics, it returns a non-nil error, or it returns its
  results with a nil error.
\<close>

datatype 'a outcome = Panic panic | Failure error | Success 'a

fun and_then :: "'a outcome \<Rightarrow> ('a \<Rightarrow> 'b outcome) \<Rightarrow> 'b outcome" where
  "and_then (Panic p) f = Panic p"
| "and_then (Failure e) f = Failure e"
| "and_then (Success x) f = f x"

text \<open>A Go pointer is \<open>None\<close> when nil; reading through it panics then.\<close>

fun deref :: "'a option \<Rightarrow> 'a outcome" where
  "deref None = Panic nil_dereference"
| "deref (Some v) = Success v"

fun lift_error :: "error + 'a \<Rightarrow> 'a outcome" where
  "lift_error (Inl e) = Failure e"
| "lift_error (Inr v) = Success v"

section \<open>The libraries the code calls\<close>

text \<open>
  The group (ristretto255), the hash functions, Argon2, HKDF, HMAC, AES and JSON are
  libraries outside the repository. They are the fields of one record that every
  function of the model takes as its first argument. \<open>'s\<close> is the type of scalars and
  \<open>'e\<close> the type of group elements.

  \<^item> \<open>hkdf_sha3_512 secret salt info\<close> is the whole output stream of the HKDF reader;
  \<^item> \<open>hmac_sha3_256 key msg\<close> is the MAC of \<open>msg\<close>;
  \<^item> \<open>aes_ctr_keystream key iv n\<close> is the first \<open>n\<close> bytes of the CTR key stream;
  \<^item> \<open>json_Marshal\<close> and \<open>json_Unmarshal\<close> are \<open>json.Marshal\<close> and
    \<open>json.Unmarshal\<close> at the anonymous struct of three byte slices (tags \<open>pu\<close>,
    \<open>Pu\<close>, \<open>Ps\<close>) that \<open>MarshalJSON\<close> and \<open>UnmarshalJSON\<close> use. The target of
    the unmarshal is a pointer to that struct, which the JSON value \<open>null\<close> sets to
    nil: \<open>Inr None\<close>.
\<close>

record ('s, 'e) primitives =
  Scalar_FromUniformBytes :: "bytes \<Rightarrow> 's"
  Scalar_Zero :: "'s"
  Scalar_Multiply :: "'s \<Rightarrow> 's \<Rightarrow> 's"
  Scalar_Invert :: "'s \<Rightarrow> 's"
  Scalar_Encode :: "'s \<Rightarrow> bytes"
  Scalar_Decode :: "bytes \<Rightarrow> error + 's"
  Element_FromUniformBytes :: "bytes \<Rightarrow> 'e"
  Element_ScalarBaseMult :: "'s \<Rightarrow> 'e"
  Element_ScalarMult :: "'s \<Rightarrow> 'e \<Rightarrow> 'e"
  Element_Encode :: "'e \<Rightarrow> bytes"
  Element_Decode :: "bytes \<Rightarrow> error + 'e"
  sha3_Sum512 :: "bytes \<Rightarrow> bytes"
  sha3_Sum256 :: "bytes \<Rightarrow> bytes"
  argon2_IDKey :: "bytes \<Rightarrow> bytes \<Rightarrow> nat \<Rightarrow> nat \<Rightarrow> nat \<Rightarrow> nat \<Rightarrow> bytes"
  blake2b_256 :: "bytes \<Rightarrow> bytes \<Rightarrow> bytes"
  hkdf_sha3_512 :: "bytes \<Rightarrow> bytes \<Rightarrow> bytes \<Rightarrow> bytes"
  hmac_sha3_256 :: "bytes \<Rightarrow> bytes \<Rightarrow> bytes"
  aes_ctr_keystream :: "bytes \<Rightarrow> bytes \<Rightarrow> nat \<Rightarrow> bytes"
  json_Marshal :: "bytes \<times> bytes \<times> bytes \<Rightarrow> error + bytes"
  json_Unmarshal :: "bytes \<Rightarrow> error + (bytes \<times> bytes \<times> bytes) option"

subsection \<open>Library calls with their panics and errors\<close>

text \<open>Both \<open>FromUniformBytes\<close> of ristretto255 panic unless given 64 bytes.\<close>

definition scalar_FromUniformBytes :: "('s, 'e) primitives \<Rightarrow> bytes \<Rightarrow> 's outcome" where
  "scalar_FromUniformBytes P b =
     (if length b \<noteq> 64 then Panic uniform_bytes_length
      else Success (Scalar_FromUniformBytes P b))"

definition element_FromUniformBytes :: "('s, 'e) primitives \<Rightarrow> bytes \<Rightarrow> 'e outcome" where
  "element_FromUniformBytes P b =
     (if length b \<noteq> 64 then Panic uniform_bytes_length
      else Success (Element_FromUniformBytes P b))"

text \<open>\<open>new(ristretto.Element).ScalarMult(k, E)\<close>, \<open>ScalarBaseMult(k)\<close>,
  \<open>new(ristretto.Scalar).Invert(r)\<close> and \<open>Encode\<close> read through their pointer
  arguments.\<close>

definition ScalarMult :: "('s, 'e) primitives \<Rightarrow> 's option \<Rightarrow> 'e option \<Rightarrow> 'e outcome" where
  "ScalarMult P k E =
     and_then (deref k) (\<lambda>k'. and_then (deref E) (\<lambda>E'.
       Success (Element_ScalarMult P k' E')))"

definition Invert :: "('s, 'e) primitives \<Rightarrow> 's option \<Rightarrow> 's outcome" where
  "Invert P r = and_then (deref r) (\<lambda>r'. Success (Scalar_Invert P r'))"

text \<open>\<open>aes.NewCipher\<close>: the block is its key; the key must have 16, 24 or 32 bytes.\<close>

definition aes_NewCipher :: "bytes \<Rightarrow> bytes outcome" where
  "aes_NewCipher key =
     (if length key = 16 \<or> length key = 24 \<or> length key = 32 then Success key
      else Failure (aes_KeySizeError (length key)))"

definition aes_BlockSize :: nat where
  "aes_BlockSize = 16"

text \<open>\<open>cipher.NewCTR(block, iv)\<close> followed by one \<open>XORKeyStream(dst, src)\<close> with
  \<open>len(dst) = len(src)\<close>: the result is \<open>dst\<close>.\<close>

definition XORKeyStream :: "('s, 'e) primitives \<Rightarrow> bytes \<Rightarrow> bytes \<Rightarrow> bytes \<Rightarrow> bytes" where
  "XORKeyStream P block iv src =
     map2 (XOR) src (aes_ctr_keystream P block iv (length src))"

text \<open>
  \<open>hmac.New(sha3.New256, key)\<close> is a hash state: the key and the bytes written so far.
  \<open>Sum(b)\<close> of Go's \<open>hash.Hash\<close> appends the current hash to \<open>b\<close> and returns the
  resulting slice; it does not write \<open>b\<close> into the hash.
\<close>

record hmac_state =
  hmac_key :: bytes
  hmac_written :: bytes

definition hmac_New :: "bytes \<Rightarrow> hmac_state" where
  "hmac_New key = \<lparr>hmac_key = key, hmac_written = []\<rparr>"

definition hmac_Sum :: "('s, 'e) primitives \<Rightarrow> hmac_state \<Rightarrow> bytes \<Rightarrow> bytes" where
  "hmac_Sum P h b = b @ hmac_sha3_256 P (hmac_key h) (hmac_written h)"

text \<open>\<open>subtle.ConstantTimeCompare\<close>: 1 when the slices are equal, 0 otherwise.\<close>

definition ConstantTimeCompare :: "bytes \<Rightarrow> bytes \<Rightarrow> int" where
  "ConstantTimeCompare x y = (if x = y then 1 else 0)"

section \<open>pake.go: the data\<close>

text \<open>Fields of pointer type are options. Field names carry the struct's initials,
  since several structs share field names. Arguments of pointer type are options too;
  the receiver of a method is taken to be non-nil.\<close>

record authCiphertext =
  Tag :: bytes
  Ciphertext :: bytes

record ('s, 'e) pendingRegistration =
  pr_ks :: "'s option"
  pr_Ps :: "'e option"
  pr_ps :: "'s option"

record 'e Registration =
  reg_ID :: string
  reg_aci :: authCiphertext
  reg_Pu :: "'e option"

record ('s, 'e) pwdFile =
  pf_ks :: "'s option"
  pf_ps :: "'s option"
  pf_Ps :: "'e option"
  pf_Pu :: "'e option"
  pf_c :: authCiphertext

record 'e UsrSession =
  us_Alpha :: "'e option"
  us_Xu :: "'e option"
  us_Sid :: string

record 'e SvrSession =
  ss_Beta :: "'e option"
  ss_Xs :: "'e option"
  ss_fk1 :: bytes
  ss_c :: authCiphertext

record ('s, 'e) ciphertextData =
  cd_pu :: "'s option"
  cd_Pu :: "'e option"
  cd_Ps :: "'e option"

record ('s, 'e) Server =
  passwordFiles :: "string \<rightharpoonup> ('s, 'e) pwdFile"
  pendingRegistrations :: "string \<rightharpoonup> ('s, 'e) pendingRegistration"

record 's Client =
  client_Sid :: string
  client_xu :: "'s option"
  client_r :: "'s option"

section \<open>The helper functions (randomScalar, oprfA, oprfB, prf, deriveHKDFKeys, keServer, keUser)\<close>

definition argonTime :: nat where
  "argonTime = 3"

definition argonMemory :: nat where
  "argonMemory = 100000"

text \<open>
  \<open>randomScalar\<close> reads 64 bytes from the system's entropy source. The read is an
  argument of the model: \<open>None\<close> when \<open>rand.Read\<close> returns an error, \<open>Some b\<close> when it
  filled the 64-byte buffer with \<open>b\<close>. \<open>FromUniformBytes\<close> panics on any other
  length, which a read of the 64-byte buffer never has.
\<close>

definition randomScalar :: "('s, 'e) primitives \<Rightarrow> bytes option \<Rightarrow> 's outcome" where
  "randomScalar P rd =
     (case rd of
        None \<Rightarrow> Panic could_not_get_entropy
      | Some b \<Rightarrow> scalar_FromUniformBytes P b)"

definition oprfA :: "('s, 'e) primitives \<Rightarrow> bytes \<Rightarrow> 's option \<Rightarrow> bytes outcome" where
  "oprfA P x k =
     and_then (element_FromUniformBytes P x) (\<lambda>hprimex.
     and_then (ScalarMult P k (Some hprimex)) (\<lambda>hprimex'.
       let hash = sha3_Sum512 P (x @ Element_Encode P hprimex');
           output = argon2_IDKey P hash [] argonTime argonMemory 4 32
       in Success output))"

definition oprfB :: "('s, 'e) primitives \<Rightarrow> 'e option \<Rightarrow> 's option \<Rightarrow> bytes \<Rightarrow> bytes outcome" where
  "oprfB P B r x =
     and_then (Invert P r) (\<lambda>rinv.
     and_then (ScalarMult P (Some rinv) B) (\<lambda>betarinv.
       let hash = sha3_Sum512 P (x @ Element_Encode P betarinv);
           output = argon2_IDKey P hash [] argonTime argonMemory 4 32
       in Success output))"

text \<open>The function \<open>prf\<close> of the source (the name is a command of Isabelle, hence
  the suffix). \<open>blake2b.New256\<close> returns an error for a key of more than 64 bytes,
  and the function panics on it.\<close>

definition prf_blake2b :: "('s, 'e) primitives \<Rightarrow> bytes \<Rightarrow> bytes \<Rightarrow> bytes outcome" where
  "prf_blake2b P k x =
     (if length k > 64 then Panic blake2b_key_size
      else Success (blake2b_256 P k x))"

text \<open>\<open>io.ReadFull\<close> returns an error when the stream ends before the buffer is full.\<close>

definition deriveHKDFKeys :: "('s, 'e) primitives \<Rightarrow> bytes \<Rightarrow> (bytes \<times> bytes) outcome" where
  "deriveHKDFKeys P x =
     (let hkdf = hkdf_sha3_512 P x [] [];
          cipherKey = take 32 hkdf;
          hkdf' = drop 32 hkdf
      in if length cipherKey < 32 then Panic could_not_derive_HKDF
         else let authKey = take 32 hkdf'
              in if length authKey < 32 then Panic could_not_derive_HKDF
                 else Success (authKey, cipherKey))"

definition keServer ::
  "('s, 'e) primitives \<Rightarrow> 's option \<Rightarrow> 's option \<Rightarrow> 'e option \<Rightarrow> 'e option \<Rightarrow> bytes outcome" where
  "keServer P ps xs Pu Xu =
     and_then (ScalarMult P xs Pu) (\<lambda>xsPu.
     and_then (ScalarMult P ps Xu) (\<lambda>psXu.
     and_then (ScalarMult P xs Xu) (\<lambda>xsXu.
       let sharedSecret = Element_Encode P xsPu @ Element_Encode P psXu;
           sharedSecret' = sharedSecret @ Element_Encode P xsXu
       in Success (sha3_Sum256 P sharedSecret'))))"

definition keUser ::
  "('s, 'e) primitives \<Rightarrow> 's option \<Rightarrow> 's option \<Rightarrow> 'e option \<Rightarrow> 'e option \<Rightarrow> bytes outcome" where
  "keUser P pu xu Ps Xs =
     and_then (ScalarMult P pu Xs) (\<lambda>puXs.
     and_then (ScalarMult P xu Ps) (\<lambda>xuPs.
     and_then (ScalarMult P xu Xs) (\<lambda>xuXs.
       let sharedSecret = Element_Encode P puXs @ Element_Encode P xuPs;
           sharedSecret' = sharedSecret @ Element_Encode P xuXs
       in Success (sha3_Sum256 P sharedSecret'))))"

section \<open>pake.go: the operations\<close>

definition NewClient :: "string \<Rightarrow> 's Client" where
  "NewClient id' = \<lparr>client_Sid = id', client_xu = None, client_r = None\<rparr>"

text \<open>\<open>Client.NewSession\<close>: the two reads of the entropy source are \<open>rd_xu\<close> and
  \<open>rd_r\<close>, in the order of the calls of \<open>randomScalar\<close>. It returns the client, with
  \<open>xu\<close> and \<open>r\<close> stored, and the message.\<close>

definition Client_NewSession ::
  "('s, 'e) primitives \<Rightarrow> 's Client \<Rightarrow> string \<Rightarrow> bytes option \<Rightarrow> bytes option
     \<Rightarrow> ('s Client \<times> 'e UsrSession) outcome" where
  "Client_NewSession P c password rd_xu rd_r =
     and_then (randomScalar P rd_xu) (\<lambda>xu.
       let Xu = Element_ScalarBaseMult P xu;
           x = sha3_Sum512 P (bytes_of_string password)
       in
     and_then (element_FromUniformBytes P x) (\<lambda>Alpha.
     and_then (randomScalar P rd_r) (\<lambda>r.
     and_then (ScalarMult P (Some r) (Some Alpha)) (\<lambda>Alpha'.
       Success (c\<lparr>client_xu := Some xu, client_r := Some r\<rparr>,
                \<lparr>us_Alpha = Some Alpha', us_Xu = Some Xu, us_Sid = client_Sid c\<rparr>)))))"

definition NewServer :: "('s, 'e) Server" where
  "NewServer = \<lparr>passwordFiles = Map.empty, pendingRegistrations = Map.empty\<rparr>"

text \<open>\<open>Server.NewRegistration\<close> returns the server, with the pending registration
  stored, and the registration it hands to the client (whose \<open>ps\<close> is nil).\<close>

definition Server_NewRegistration ::
  "('s, 'e) primitives \<Rightarrow> ('s, 'e) Server \<Rightarrow> string \<Rightarrow> bytes option \<Rightarrow> bytes option
     \<Rightarrow> (('s, 'e) Server \<times> ('s, 'e) pendingRegistration) outcome" where
  "Server_NewRegistration P s sid rd_ks rd_ps =
     and_then (randomScalar P rd_ks) (\<lambda>ks.
     and_then (randomScalar P rd_ps) (\<lambda>ps.
       let Ps = Element_ScalarBaseMult P ps
       in Success
            (s\<lparr>pendingRegistrations := (pendingRegistrations s)
                  (sid \<mapsto> \<lparr>pr_ks = Some ks, pr_Ps = Some Ps, pr_ps = Some ps\<rparr>)\<rparr>,
             \<lparr>pr_ks = Some ks, pr_Ps = Some Ps, pr_ps = None\<rparr>)))"

text \<open>\<open>Server.Register\<close> returns the server and the error (\<open>None\<close> is nil). The
  deferred \<open>delete\<close> runs on both returns that follow it.\<close>

definition Server_Register ::
  "('s, 'e) Server \<Rightarrow> 'e Registration option \<Rightarrow> (('s, 'e) Server \<times> error option) outcome" where
  "Server_Register s reg =
     and_then (deref reg) (\<lambda>reg'.
       case pendingRegistrations s (reg_ID reg') of
         None \<Rightarrow> Success (s, Some (errors_New ''no pending registration''))
       | Some pendingRegistration \<Rightarrow>
           if passwordFiles s (reg_ID reg') \<noteq> None
           then Success
                  (s\<lparr>pendingRegistrations := (pendingRegistrations s)(reg_ID reg' := None)\<rparr>,
                   Some (errors_New ''user already registered''))
           else
             let pf = \<lparr>pf_ks = pr_ks pendingRegistration,
                       pf_ps = pr_ps pendingRegistration,
                       pf_Ps = pr_Ps pendingRegistration,
                       pf_Pu = reg_Pu reg',
                       pf_c = reg_aci reg'\<rparr>;
                 s' = s\<lparr>passwordFiles := (passwordFiles s)(reg_ID reg' \<mapsto> pf)\<rparr>
             in Success
                  (s'\<lparr>pendingRegistrations := (pendingRegistrations s')(reg_ID reg' := None)\<rparr>,
                   None))"

text \<open>\<open>ciphertextData.MarshalJSON\<close> and \<open>UnmarshalJSON\<close>. The decoders run in the
  source's order: \<open>Pu\<close>, \<open>pu\<close>, \<open>Ps\<close>.\<close>

definition MarshalJSON :: "('s, 'e) primitives \<Rightarrow> ('s, 'e) ciphertextData \<Rightarrow> bytes outcome" where
  "MarshalJSON P c =
     and_then (deref (cd_pu c)) (\<lambda>pu.
     and_then (deref (cd_Pu c)) (\<lambda>Pu.
     and_then (deref (cd_Ps c)) (\<lambda>Ps.
       lift_error (json_Marshal P
         (Scalar_Encode P pu, Element_Encode P Pu, Element_Encode P Ps)))))"

definition UnmarshalJSON ::
  "('s, 'e) primitives \<Rightarrow> bytes \<Rightarrow> ('s, 'e) ciphertextData outcome" where
  "UnmarshalJSON P data =
     and_then (lift_error (json_Unmarshal P data)) (\<lambda>encoded.
     and_then (deref encoded) (\<lambda>(Puscalar, Pu, Ps).
     and_then (lift_error (Element_Decode P Pu)) (\<lambda>Pu'.
     and_then (lift_error (Scalar_Decode P Puscalar)) (\<lambda>pu'.
     and_then (lift_error (Element_Decode P Ps)) (\<lambda>Ps'.
       Success \<lparr>cd_pu = Some pu', cd_Pu = Some Pu', cd_Ps = Some Ps'\<rparr>)))))"

text \<open>\<open>Client.NewRegistration\<close> neither reads nor writes its receiver.\<close>

definition Client_NewRegistration ::
  "('s, 'e) primitives \<Rightarrow> ('s, 'e) pendingRegistration option \<Rightarrow> string \<Rightarrow> string
     \<Rightarrow> bytes option \<Rightarrow> 'e Registration outcome" where
  "Client_NewRegistration P sinfo username password rd_pu =
     and_then (randomScalar P rd_pu) (\<lambda>pu.
       let Pu = Element_ScalarBaseMult P pu;
           x = sha3_Sum512 P (bytes_of_string password)
       in
     and_then (deref sinfo) (\<lambda>sinfo'.
     and_then (oprfA P x (pr_ks sinfo')) (\<lambda>rw.
     and_then (deriveHKDFKeys P rw) (\<lambda>(hmacKey, cipherKey).
     and_then (aes_NewCipher cipherKey) (\<lambda>block.
       let iv = replicate aes_BlockSize 0;
           authHmac = hmac_New hmacKey
       in
     and_then (MarshalJSON P \<lparr>cd_pu = Some pu, cd_Pu = Some Pu, cd_Ps = pr_Ps sinfo'\<rparr>)
       (\<lambda>toencrypt.
       let ctext = XORKeyStream P block iv toencrypt;
           tag = hmac_Sum P authHmac ctext;
           aci = \<lparr>Tag = tag, Ciphertext = ctext\<rparr>
       in Success \<lparr>reg_ID = username, reg_aci = aci, reg_Pu = Some Pu\<rparr>))))))"

text \<open>\<open>Server.NewSession\<close> does not write the server.\<close>

definition Server_NewSession ::
  "('s, 'e) primitives \<Rightarrow> ('s, 'e) Server \<Rightarrow> 'e UsrSession option \<Rightarrow> bytes option
     \<Rightarrow> ('e SvrSession \<times> bytes) outcome" where
  "Server_NewSession P s session rd_xs =
     and_then (deref session) (\<lambda>session'.
       case passwordFiles s (us_Sid session') of
         None \<Rightarrow> Failure (errors_New ''no such sid'')
       | Some pf \<Rightarrow>
     and_then (randomScalar P rd_xs) (\<lambda>xs.
       let Xs = Element_ScalarBaseMult P xs
       in
     and_then (ScalarMult P (pf_ks pf) (us_Alpha session')) (\<lambda>beta.
     and_then (keServer P (pf_ps pf) (Some xs) (pf_Pu pf) (us_Xu session')) (\<lambda>K.
     and_then (prf_blake2b P K [0]) (\<lambda>SK.
     and_then (prf_blake2b P K [1]) (\<lambda>fk1.
       Success (\<lparr>ss_Beta = Some beta, ss_Xs = Some Xs, ss_fk1 = fk1, ss_c = pf_c pf\<rparr>,
                SK)))))))"

text \<open>\<open>Client.SessionKey\<close> returns the pair \<open>(SK, fk2)\<close>. It has no assignment to a
  field of its receiver; \<open>Client_SessionKey_state\<close> is the receiver after the call.\<close>

definition Client_SessionKey ::
  "('s, 'e) primitives \<Rightarrow> 's Client \<Rightarrow> 'e SvrSession option \<Rightarrow> string
     \<Rightarrow> (bytes \<times> bytes) outcome" where
  "Client_SessionKey P c session password =
     (let x = sha3_Sum512 P (bytes_of_string password)
      in
     and_then (deref session) (\<lambda>session'.
     and_then (oprfB P (ss_Beta session') (client_r c) x) (\<lambda>rw.
     and_then (deriveHKDFKeys P rw) (\<lambda>(hmacKey, cipherKey).
     and_then (aes_NewCipher cipherKey) (\<lambda>block.
       let iv = replicate aes_BlockSize 0;
           authHmac = hmac_New hmacKey
       in
       if ConstantTimeCompare (hmac_Sum P authHmac (Ciphertext (ss_c session')))
            (Tag (ss_c session')) \<noteq> 1
       then Failure (errors_New ''invalid hmac tag on server-sent c'')
       else
         let caData = XORKeyStream P block iv (Ciphertext (ss_c session'))
         in
     and_then (UnmarshalJSON P caData) (\<lambda>ca.
     and_then (keUser P (cd_pu ca) (client_xu c) (cd_Ps ca) (ss_Xs session')) (\<lambda>K.
     and_then (prf_blake2b P K [0]) (\<lambda>SK.
     and_then (prf_blake2b P K [1]) (\<lambda>fk1.
       if ConstantTimeCompare fk1 (ss_fk1 session') \<noteq> 1
       then Failure (errors_New ''server authentication failed'')
       else
     and_then (prf_blake2b P K [2]) (\<lambda>fk2.
       Success (SK, fk2)))))))))))"

definition Client_SessionKey_state ::
  "('s, 'e) primitives \<Rightarrow> 's Client \<Rightarrow> 'e SvrSession option \<Rightarrow> string \<Rightarrow> 's Client" where
  "Client_SessionKey_state P c session password = c"

text \<open>\<open>clear\<close> zeroes a byte slice in place, index by index. No function of the
  package calls it.\<close>

function clear_loop :: "nat \<Rightarrow> bytes \<Rightarrow> bytes" where
  "clear_loop i x = (if i < length x then clear_loop (i + 1) (x[i := 0]) else x)"
  by pat_completeness auto
termination
  by (relation "measure (\<lambda>(i, x). length x - i)") auto

declare clear_loop.simps [simp del]

definition clear :: "bytes \<Rightarrow> bytes" where
  "clear x = clear_loop 0 x"

section \<open>What the libraries guarantee\<close>

text \<open>
  The facts about the libraries that the theorems below rely on, each a predicate on the
  record of primitives.

  \<open>group_laws\<close>: ristretto255 is a group of prime order, written additively, whose
  scalars are the field of that order: scalar multiplication is commutative, multiplying
  an element by two scalars in turn is multiplying by their product, the base point
  multiplication is scalar multiplication of the base point, and multiplying by the
  inverse of a nonzero scalar undoes multiplying by the scalar.
\<close>

definition group_laws :: "('s, 'e) primitives \<Rightarrow> bool" where
  "group_laws P \<longleftrightarrow>
     (\<forall>a b. Scalar_Multiply P a b = Scalar_Multiply P b a) \<and>
     (\<forall>a b. Element_ScalarMult P a (Element_ScalarBaseMult P b) =
            Element_ScalarBaseMult P (Scalar_Multiply P a b)) \<and>
     (\<forall>a b E. Element_ScalarMult P a (Element_ScalarMult P b E) =
            Element_ScalarMult P (Scalar_Multiply P a b) E) \<and>
     (\<forall>r E. r \<noteq> Scalar_Zero P \<longrightarrow>
            Element_ScalarMult P (Scalar_Invert P r) (Element_ScalarMult P r E) = E)"

text \<open>\<open>canonical_encodings\<close>: scalars and elements encode to 32 bytes and decode back.\<close>

definition canonical_encodings :: "('s, 'e) primitives \<Rightarrow> bool" where
  "canonical_encodings P \<longleftrightarrow>
     (\<forall>s. length (Scalar_Encode P s) = 32 \<and> Scalar_Decode P (Scalar_Encode P s) = Inr s) \<and>
     (\<forall>e. length (Element_Encode P e) = 32 \<and> Element_Decode P (Element_Encode P e) = Inr e)"

text \<open>\<open>output_lengths\<close>: the digest sizes, the requested key length of Argon2, a key
  stream of the requested length, and an HKDF stream of at least 64 bytes.\<close>

definition output_lengths :: "('s, 'e) primitives \<Rightarrow> bool" where
  "output_lengths P \<longleftrightarrow>
     (\<forall>b. length (sha3_Sum512 P b) = 64) \<and>
     (\<forall>b. length (sha3_Sum256 P b) = 32) \<and>
     (\<forall>pw salt t m th n. length (argon2_IDKey P pw salt t m th n) = n) \<and>
     (\<forall>k x. length (blake2b_256 P k x) = 32) \<and>
     (\<forall>x salt info. 64 \<le> length (hkdf_sha3_512 P x salt info)) \<and>
     (\<forall>k x. length (hmac_sha3_256 P k x) = 32) \<and>
     (\<forall>k iv n. length (aes_ctr_keystream P k iv n) = n)"

text \<open>\<open>json_roundtrip\<close>: three 32-byte fields marshal without error, and the result
  unmarshals to them.\<close>

definition json_roundtrip :: "('s, 'e) primitives \<Rightarrow> bool" where
  "json_roundtrip P \<longleftrightarrow>
     (\<forall>x y z. length x = 32 \<and> length y = 32 \<and> length z = 32 \<longrightarrow>
        (\<exists>b. json_Marshal P (x, y, z) = Inr b \<and> json_Unmarshal P b = Inr (Some (x, y, z))))"

section \<open>The key exchange as the specification words it\<close>

text \<open>
  The specification's raw shared secret: SHA3-256 over the encodings of the three
  Diffie-Hellman products, in the order \<open>P\<^sub>u\<cdot>X\<^sub>s\<close>, \<open>X\<^sub>u\<cdot>P\<^sub>s\<close>, \<open>X\<^sub>u\<cdot>X\<^sub>s\<close>, where the
  product of the public keys of the scalars \<open>a\<close> and \<open>b\<close> is the public key of \<open>a b\<close>.
\<close>

definition keyexchange_spec :: "('s, 'e) primitives \<Rightarrow> 's \<Rightarrow> 's \<Rightarrow> 's \<Rightarrow> 's \<Rightarrow> bytes" where
  "keyexchange_spec P pu xu ps xs =
     sha3_Sum256 P
       (Element_Encode P (Element_ScalarBaseMult P (Scalar_Multiply P pu xs)) @
        Element_Encode P (Element_ScalarBaseMult P (Scalar_Multiply P xu ps)) @
        Element_Encode P (Element_ScalarBaseMult P (Scalar_Multiply P xu xs)))"

section \<open>A small instance of the libraries\<close>

text \<open>
  An instance on which the functions can be run: the group of order 3 (the integers
  modulo 3 under addition, with base point 1) with the field of order 3 as its scalars,
  and byte-sum stand-ins for the hash functions. It satisfies the four predicates
  above. It serves to run the code at concrete inputs; the theorems hold for every
  record of primitives.
\<close>

datatype z3 = Z0 | Z1 | Z2

fun z3_mul :: "z3 \<Rightarrow> z3 \<Rightarrow> z3" where
  "z3_mul Z0 b = Z0"
| "z3_mul Z1 b = b"
| "z3_mul Z2 Z0 = Z0"
| "z3_mul Z2 Z1 = Z2"
| "z3_mul Z2 Z2 = Z1"

fun z3_of_byte :: "byte \<Rightarrow> z3" where
  "z3_of_byte x = (if unat x mod 3 = 0 then Z0 else if unat x mod 3 = 1 then Z1 else Z2)"

fun z3_byte :: "z3 \<Rightarrow> byte" where
  "z3_byte Z0 = 0"
| "z3_byte Z1 = 1"
| "z3_byte Z2 = 2"

definition z3_Encode :: "z3 \<Rightarrow> bytes" where
  "z3_Encode a = z3_byte a # replicate 31 0"

definition z3_Decode :: "bytes \<Rightarrow> error + z3" where
  "z3_Decode b =
     (if b = z3_Encode Z0 then Inr Z0
      else if b = z3_Encode Z1 then Inr Z1
      else if b = z3_Encode Z2 then Inr Z2
      else Inl (library_error ''invalid encoding''))"

definition small :: "(z3, z3) primitives" where
  "small = \<lparr>
     Scalar_FromUniformBytes = (\<lambda>b. z3_of_byte (sum_list b)),
     Scalar_Zero = Z0,
     Scalar_Multiply = z3_mul,
     Scalar_Invert = (\<lambda>a. a),
     Scalar_Encode = z3_Encode,
     Scalar_Decode = z3_Decode,
     Element_FromUniformBytes = (\<lambda>b. z3_of_byte (sum_list b + 1)),
     Element_ScalarBaseMult = (\<lambda>a. a),
     Element_ScalarMult = z3_mul,
     Element_Encode = z3_Encode,
     Element_Decode = z3_Decode,
     sha3_Sum512 = (\<lambda>b. replicate 64 (sum_list b)),
     sha3_Sum256 = (\<lambda>b. replicate 32 (sum_list b)),
     argon2_IDKey = (\<lambda>pw salt t m th n. replicate n (sum_list pw)),
     blake2b_256 = (\<lambda>k x. replicate 32 (sum_list k + sum_list x)),
     hkdf_sha3_512 = (\<lambda>x salt info. replicate 64 (sum_list x + 1)),
     hmac_sha3_256 = (\<lambda>k x. replicate 32 (sum_list k + sum_list x)),
     aes_ctr_keystream = (\<lambda>k iv n. replicate n (sum_list k)),
     json_Marshal = (\<lambda>(x, y, z). Inr (x @ y @ z)),
     json_Unmarshal = (\<lambda>b. if length b = 96
        then Inr (Some (take 32 b, take 32 (drop 32 b), drop 64 b))
        else Inl (library_error ''unexpected end of JSON input''))\<rparr>"

section \<open>The small instance satisfies the library facts\<close>

lemma small_group_laws: "group_laws small"
  unfolding group_laws_def small_def
  apply (simp)
  apply (intro conjI allI impI)
  subgoal for a b by (cases a; cases b; simp)
  subgoal for a b E by (cases a; cases b; cases E; simp)
  subgoal for r E by (cases r; cases E; simp)
  done

lemma z3_Encode_length: "length (z3_Encode a) = 32"
  by (simp add: z3_Encode_def)

lemma z3_Decode_Encode: "z3_Decode (z3_Encode a) = Inr a"
  by (cases a) (simp_all add: z3_Encode_def z3_Decode_def)

lemma small_canonical_encodings: "canonical_encodings small"
  unfolding canonical_encodings_def small_def
  by (simp add: z3_Encode_length z3_Decode_Encode)

lemma small_output_lengths: "output_lengths small"
  unfolding output_lengths_def small_def by simp

lemma small_json_roundtrip: "json_roundtrip small"
  unfolding json_roundtrip_def small_def by simp

section \<open>Basic facts about the helper functions\<close>

lemma ScalarMult_Some: "ScalarMult P (Some k) (Some E) = Success (Element_ScalarMult P k E)"
  by (simp add: ScalarMult_def)

lemma ScalarMult_nil_scalar: "ScalarMult P None E = Panic nil_dereference"
  by (simp add: ScalarMult_def)

lemma ScalarMult_nil_element: "ScalarMult P k None = Panic nil_dereference"
  by (cases k) (simp_all add: ScalarMult_def)

lemma Invert_Some: "Invert P (Some r) = Success (Scalar_Invert P r)"
  by (simp add: Invert_def)

lemma randomScalar_Some:
  "length b = 64 \<Longrightarrow> randomScalar P (Some b) = Success (Scalar_FromUniformBytes P b)"
  by (simp add: randomScalar_def scalar_FromUniformBytes_def)

lemma smul_base_comm:
  assumes "group_laws P"
  shows "Element_ScalarMult P a (Element_ScalarBaseMult P b) =
         Element_ScalarBaseMult P (Scalar_Multiply P b a)"
proof -
  have "Element_ScalarMult P a (Element_ScalarBaseMult P b) =
        Element_ScalarBaseMult P (Scalar_Multiply P a b)"
    using assms by (simp add: group_laws_def)
  moreover have "Scalar_Multiply P a b = Scalar_Multiply P b a"
    using assms by (simp add: group_laws_def)
  ultimately show ?thesis by simp
qed

lemma smul_base:
  assumes "group_laws P"
  shows "Element_ScalarMult P a (Element_ScalarBaseMult P b) =
         Element_ScalarBaseMult P (Scalar_Multiply P a b)"
  using assms by (simp add: group_laws_def)

lemma unblind:
  assumes "group_laws P" and "r \<noteq> Scalar_Zero P"
  shows "Element_ScalarMult P (Scalar_Invert P r)
           (Element_ScalarMult P k (Element_ScalarMult P r E)) = Element_ScalarMult P k E"
proof -
  have comm: "Scalar_Multiply P k r = Scalar_Multiply P r k"
    using assms(1) unfolding group_laws_def by blast
  have assoc: "\<And>a b X. Element_ScalarMult P a (Element_ScalarMult P b X) =
      Element_ScalarMult P (Scalar_Multiply P a b) X"
    using assms(1) unfolding group_laws_def by blast
  have inv: "\<And>X. Element_ScalarMult P (Scalar_Invert P r) (Element_ScalarMult P r X) = X"
    using assms unfolding group_laws_def by blast
  have "Element_ScalarMult P k (Element_ScalarMult P r E) =
        Element_ScalarMult P (Scalar_Multiply P k r) E"
    by (rule assoc)
  also have "\<dots> = Element_ScalarMult P (Scalar_Multiply P r k) E"
    by (simp only: comm)
  also have "\<dots> = Element_ScalarMult P r (Element_ScalarMult P k E)"
    by (rule assoc [symmetric])
  finally show ?thesis
    by (simp only: inv)
qed

lemma deriveHKDFKeys_Success:
  assumes "output_lengths P"
  shows "deriveHKDFKeys P x =
           Success (take 32 (drop 32 (hkdf_sha3_512 P x [] [])),
                    take 32 (hkdf_sha3_512 P x [] []))"
proof -
  have "64 \<le> length (hkdf_sha3_512 P x [] [])"
    using assms unfolding output_lengths_def by blast
  then show ?thesis
    by (simp add: deriveHKDFKeys_def Let_def)
qed

lemma cipherKey_length:
  assumes "output_lengths P"
  shows "length (take 32 (hkdf_sha3_512 P x [] [])) = 32"
proof -
  have "64 \<le> length (hkdf_sha3_512 P x [] [])"
    using assms unfolding output_lengths_def by blast
  then show ?thesis by simp
qed

lemma aes_NewCipher_32: "length k = 32 \<Longrightarrow> aes_NewCipher k = Success k"
  by (simp add: aes_NewCipher_def)

lemma XORKeyStream_length:
  assumes "output_lengths P"
  shows "length (XORKeyStream P k iv m) = length m"
proof -
  have "length (aes_ctr_keystream P k iv (length m)) = length m"
    using assms unfolding output_lengths_def by blast
  then show ?thesis by (simp add: XORKeyStream_def)
qed

lemma XORKeyStream_involution:
  assumes "output_lengths P"
  shows "XORKeyStream P k iv (XORKeyStream P k iv m) = m"
proof -
  have len: "length (aes_ctr_keystream P k iv (length m)) = length m"
    using assms unfolding output_lengths_def by blast
  have xx: "\<And>(a::byte) b. (a XOR b) XOR b = a"
    by (simp add: xor.assoc)
  show ?thesis
    unfolding XORKeyStream_def
    by (rule nth_equalityI) (simp_all add: len xx)
qed

lemma MarshalJSON_UnmarshalJSON:
  assumes "canonical_encodings P" and "json_roundtrip P"
  shows "\<exists>b. MarshalJSON P \<lparr>cd_pu = Some pu, cd_Pu = Some Pu, cd_Ps = Some Ps\<rparr> = Success b
           \<and> UnmarshalJSON P b = Success \<lparr>cd_pu = Some pu, cd_Pu = Some Pu, cd_Ps = Some Ps\<rparr>"
proof -
  have l: "length (Scalar_Encode P pu) = 32" "length (Element_Encode P Pu) = 32"
    "length (Element_Encode P Ps) = 32"
    using assms(1) unfolding canonical_encodings_def by blast+
  have d: "Scalar_Decode P (Scalar_Encode P pu) = Inr pu"
    "Element_Decode P (Element_Encode P Pu) = Inr Pu"
    "Element_Decode P (Element_Encode P Ps) = Inr Ps"
    using assms(1) unfolding canonical_encodings_def by blast+
  obtain b where b: "json_Marshal P (Scalar_Encode P pu, Element_Encode P Pu, Element_Encode P Ps) = Inr b"
    "json_Unmarshal P b = Inr (Some (Scalar_Encode P pu, Element_Encode P Pu, Element_Encode P Ps))"
    using assms(2) l unfolding json_roundtrip_def by blast
  have "MarshalJSON P \<lparr>cd_pu = Some pu, cd_Pu = Some Pu, cd_Ps = Some Ps\<rparr> = Success b"
    by (simp add: MarshalJSON_def b)
  moreover have "UnmarshalJSON P b = Success \<lparr>cd_pu = Some pu, cd_Pu = Some Pu, cd_Ps = Some Ps\<rparr>"
    by (simp add: UnmarshalJSON_def b d)
  ultimately show ?thesis by blast
qed

lemma oprfA_Success:
  assumes "length x = 64"
  shows "oprfA P x (Some k) =
     Success (argon2_IDKey P
       (sha3_Sum512 P (x @ Element_Encode P (Element_ScalarMult P k (Element_FromUniformBytes P x))))
       [] argonTime argonMemory 4 32)"
  using assms by (simp add: oprfA_def element_FromUniformBytes_def ScalarMult_Some)

lemma oprfB_Success:
  "oprfB P (Some B) (Some r) x =
     Success (argon2_IDKey P
       (sha3_Sum512 P (x @ Element_Encode P (Element_ScalarMult P (Scalar_Invert P r) B)))
       [] argonTime argonMemory 4 32)"
  by (simp add: oprfB_def Invert_Some ScalarMult_Some)

lemma prf_Success: "length k \<le> 64 \<Longrightarrow> prf_blake2b P k x = Success (blake2b_256 P k x)"
  by (simp add: prf_blake2b_def)

lemma Client_NewRegistration_Success:
  assumes "output_lengths P" and "length b_pu = 64"
    and "deriveHKDFKeys P rw = Success (authKey, cipherKey)"
    and "oprfA P (sha3_Sum512 P (bytes_of_string pw)) (pr_ks sinfo) = Success rw"
    and "MarshalJSON P \<lparr>cd_pu = Some (Scalar_FromUniformBytes P b_pu),
           cd_Pu = Some (Element_ScalarBaseMult P (Scalar_FromUniformBytes P b_pu)),
           cd_Ps = pr_Ps sinfo\<rparr> = Success toencrypt"
  shows "Client_NewRegistration P (Some sinfo) username pw (Some b_pu) =
     Success \<lparr>reg_ID = username,
       reg_aci = \<lparr>Tag = XORKeyStream P cipherKey (replicate 16 0) toencrypt @
                        hmac_sha3_256 P authKey [],
                 Ciphertext = XORKeyStream P cipherKey (replicate 16 0) toencrypt\<rparr>,
       reg_Pu = Some (Element_ScalarBaseMult P (Scalar_FromUniformBytes P b_pu))\<rparr>"
proof -
  have ck: "cipherKey = take 32 (hkdf_sha3_512 P rw [] [])"
    using assms(3) by (simp add: deriveHKDFKeys_Success [OF assms(1)])
  have "length cipherKey = 32"
    unfolding ck by (rule cipherKey_length [OF assms(1)])
  then have aes: "aes_NewCipher cipherKey = Success cipherKey"
    by (rule aes_NewCipher_32)
  show ?thesis
    by (simp add: Client_NewRegistration_def randomScalar_Some assms(2,3,4,5) aes
        aes_BlockSize_def hmac_New_def hmac_Sum_def Let_def)
qed

lemma Client_SessionKey_Success:
  assumes ol: "output_lengths P"
    and r: "client_r c = Some r" and xu: "client_xu c = Some xu"
    and rw: "oprfB P (ss_Beta sess) (Some r) (sha3_Sum512 P (bytes_of_string pw)) = Success rw"
    and keys: "deriveHKDFKeys P rw = Success (authKey, cipherKey)"
    and tag: "Tag (ss_c sess) = Ciphertext (ss_c sess) @ hmac_sha3_256 P authKey []"
    and ca: "UnmarshalJSON P (XORKeyStream P cipherKey (replicate 16 0) (Ciphertext (ss_c sess)))
               = Success ca"
    and K: "keUser P (cd_pu ca) (Some xu) (cd_Ps ca) (ss_Xs sess) = Success K"
    and Klen: "length K \<le> 64"
    and fk1: "ss_fk1 sess = blake2b_256 P K [1]"
  shows "Client_SessionKey P c (Some sess) pw =
           Success (blake2b_256 P K [0], blake2b_256 P K [2])"
proof -
  have ck: "cipherKey = take 32 (hkdf_sha3_512 P rw [] [])"
    using keys by (simp add: deriveHKDFKeys_Success [OF ol])
  have "length cipherKey = 32"
    unfolding ck by (rule cipherKey_length [OF ol])
  then have aes: "aes_NewCipher cipherKey = Success cipherKey"
    by (rule aes_NewCipher_32)
  show ?thesis
    by (simp add: Client_SessionKey_def Let_def r xu rw keys aes aes_BlockSize_def
        hmac_New_def hmac_Sum_def ConstantTimeCompare_def tag ca K prf_Success [OF Klen] fk1)
qed

lemma keServer_value:
  assumes "group_laws P"
  shows "keServer P (Some ps) (Some xs)
           (Some (Element_ScalarBaseMult P pu)) (Some (Element_ScalarBaseMult P xu)) =
         Success (keyexchange_spec P pu xu ps xs)"
  by (simp add: keServer_def keyexchange_spec_def ScalarMult_Some smul_base_comm [OF assms])

lemma keUser_value:
  assumes "group_laws P"
  shows "keUser P (Some pu) (Some xu)
           (Some (Element_ScalarBaseMult P ps)) (Some (Element_ScalarBaseMult P xs)) =
         Success (keyexchange_spec P pu xu ps xs)"
  by (simp add: keUser_def keyexchange_spec_def ScalarMult_Some smul_base [OF assms])

lemma small_scalar_1: "Scalar_FromUniformBytes small (replicate 64 1) = Z1"
  by (simp add: small_def sum_list_replicate)

lemma small_scalar_2: "Scalar_FromUniformBytes small (replicate 64 2) = Z2"
  by (simp add: small_def sum_list_replicate)

lemma small_Zero: "Scalar_Zero small = Z0"
  by (simp add: small_def)

text \<open>\<open>clear\<close> leaves a slice of zeroes of the same length.\<close>

lemma clear_loop_zeroes:
  "i \<le> length x \<Longrightarrow> clear_loop i x = take i x @ replicate (length x - i) 0"
proof (induction i x rule: clear_loop.induct)
  case (1 i x)
  show ?case
  proof (cases "i < length x")
    case True
    then have "clear_loop i x = clear_loop (i + 1) (x[i := 0])"
      by (simp add: clear_loop.simps [of i x])
    also have "\<dots> = take (i + 1) (x[i := 0]) @ replicate (length (x[i := 0]) - (i + 1)) 0"
      using True by (intro "1.IH") simp_all
    also have "take (i + 1) (x[i := 0]) = take i x @ [0]"
      using True by (simp add: take_Suc_conv_app_nth)
    also have "(take i x @ [0]) @ replicate (length (x[i := 0]) - (i + 1)) 0 =
               take i x @ replicate (length x - i) 0"
      using True by (simp add: replicate_Suc [symmetric] Suc_diff_Suc del: replicate_Suc)
    finally show ?thesis .
  next
    case False
    then have "clear_loop i x = x"
      by (simp add: clear_loop.simps [of i x])
    with False "1.prems" show ?thesis by simp
  qed
qed

lemma clear_zeroes: "clear x = replicate (length x) 0"
  by (simp add: clear_def clear_loop_zeroes)

section \<open>Inverting the sequencing of outcomes\<close>

lemma and_then_Success_iff:
  "and_then m f = Success y \<longleftrightarrow> (\<exists>x. m = Success x \<and> f x = Success y)"
  by (cases m) auto

lemma deref_Success_iff: "deref p = Success v \<longleftrightarrow> p = Some v"
  by (cases p) auto

lemma aes_NewCipher_Success: "aes_NewCipher k = Success block \<Longrightarrow> block = k"
  by (simp add: aes_NewCipher_def split: if_splits)

section \<open>The server's registration\<close>

lemma Server_Register_no_pending:
  "pendingRegistrations s (reg_ID reg) = None \<Longrightarrow>
     Server_Register s (Some reg) = Success (s, Some (errors_New ''no pending registration''))"
  by (simp add: Server_Register_def)

lemma Server_Register_ok:
  assumes "Server_Register s (Some reg) = Success (s', None)"
  shows "pendingRegistrations s' (reg_ID reg) = None \<and> passwordFiles s' (reg_ID reg) \<noteq> None"
  using assms
  by (auto simp add: Server_Register_def Let_def split: option.splits if_splits)

lemma Server_Register_registered:
  assumes "pendingRegistrations s (reg_ID reg) = Some p" and "passwordFiles s (reg_ID reg) = Some f"
  shows "Server_Register s (Some reg) =
     Success (s\<lparr>pendingRegistrations := (pendingRegistrations s)(reg_ID reg := None)\<rparr>,
              Some (errors_New ''user already registered''))"
  using assms by (simp add: Server_Register_def)

lemma registration_run:
  assumes ol: "output_lengths P" and ce: "canonical_encodings P" and jr: "json_roundtrip P"
    and fresh: "passwordFiles s0 sid = None"
    and len: "length b_ks = 64" "length b_ps = 64" "length b_pu = 64"
  shows "\<exists>s1 pr reg s2.
           Server_NewRegistration P s0 sid (Some b_ks) (Some b_ps) = Success (s1, pr)
         \<and> Client_NewRegistration P (Some pr) sid pw (Some b_pu) = Success reg
         \<and> reg_ID reg = sid
         \<and> Server_Register s1 (Some reg) = Success (s2, None)"
proof -
  define ks where "ks = Scalar_FromUniformBytes P b_ks"
  define ps where "ps = Scalar_FromUniformBytes P b_ps"
  define Ps where "Ps = Element_ScalarBaseMult P ps"
  define x where "x = sha3_Sum512 P (bytes_of_string pw)"
  define pr :: "('a, 'b) pendingRegistration"
    where "pr = \<lparr>pr_ks = Some ks, pr_Ps = Some Ps, pr_ps = None\<rparr>"
  define s1 where "s1 = s0\<lparr>pendingRegistrations := (pendingRegistrations s0)
                  (sid \<mapsto> \<lparr>pr_ks = Some ks, pr_Ps = Some Ps, pr_ps = Some ps\<rparr>)\<rparr>"
  have xlen: "length x = 64"
    using ol unfolding x_def output_lengths_def by blast
  obtain toencrypt where
    m: "MarshalJSON P \<lparr>cd_pu = Some (Scalar_FromUniformBytes P b_pu),
          cd_Pu = Some (Element_ScalarBaseMult P (Scalar_FromUniformBytes P b_pu)),
          cd_Ps = Some Ps\<rparr> = Success toencrypt"
    using MarshalJSON_UnmarshalJSON [OF ce jr] by blast
  define rw where "rw = argon2_IDKey P
       (sha3_Sum512 P (x @ Element_Encode P
          (Element_ScalarMult P ks (Element_FromUniformBytes P x))))
       [] argonTime argonMemory 4 32"
  define authKey where "authKey = take 32 (drop 32 (hkdf_sha3_512 P rw [] []))"
  define cipherKey where "cipherKey = take 32 (hkdf_sha3_512 P rw [] [])"
  have oA: "oprfA P x (Some ks) = Success rw"
    unfolding rw_def by (rule oprfA_Success [OF xlen])
  have keys: "deriveHKDFKeys P rw = Success (authKey, cipherKey)"
    unfolding authKey_def cipherKey_def by (rule deriveHKDFKeys_Success [OF ol])
  have 1: "Server_NewRegistration P s0 sid (Some b_ks) (Some b_ps) = Success (s1, pr)"
    by (simp add: Let_def Server_NewRegistration_def randomScalar_Some len s1_def pr_def ks_def
        ps_def Ps_def)
  define reg where "reg = \<lparr>reg_ID = sid,
       reg_aci = \<lparr>Tag = XORKeyStream P cipherKey (replicate 16 0) toencrypt @
                        hmac_sha3_256 P authKey [],
                 Ciphertext = XORKeyStream P cipherKey (replicate 16 0) toencrypt\<rparr>,
       reg_Pu = Some (Element_ScalarBaseMult P (Scalar_FromUniformBytes P b_pu))\<rparr>"
  have 2: "Client_NewRegistration P (Some pr) sid pw (Some b_pu) = Success reg"
    unfolding reg_def
    by (rule Client_NewRegistration_Success [OF ol len(3) keys])
       (simp_all add: pr_def oA [unfolded x_def] m)
  have id: "reg_ID reg = sid"
    by (simp add: reg_def)
  have "\<exists>s2. Server_Register s1 (Some reg) = Success (s2, None)"
    by (simp add: Let_def Server_Register_def s1_def id fresh)
  with 1 2 id show ?thesis by blast
qed

section \<open>How SessionKey fails\<close>



section \<open>Runs on the small instance\<close>

lemma small_hash_password:
  "sha3_Sum512 small (bytes_of_string ''correct horse battery staple'') = replicate 64 247"
  by (simp add: small_def bytes_of_string_def)

lemma small_hash_to_group: "Element_FromUniformBytes small (replicate 64 247) = Z1"
  by (simp add: small_def sum_list_replicate)

lemma small_NewSession:
  "Client_NewSession small (NewClient ''alice'') ''correct horse battery staple''
     (Some (replicate 64 1)) (Some (replicate 64 2)) =
   Success (\<lparr>client_Sid = ''alice'', client_xu = Some Z1, client_r = Some Z2\<rparr>,
            \<lparr>us_Alpha = Some Z2, us_Xu = Some Z1, us_Sid = ''alice''\<rparr>)"
  by (simp add: Client_NewSession_def randomScalar_Some small_scalar_1 small_scalar_2
      small_hash_password element_FromUniformBytes_def small_hash_to_group ScalarMult_Some
      NewClient_def Let_def)
     (simp add: small_def)

lemma small_oprfA: "oprfA small (replicate 64 247) (Some Z2) = Success (replicate 32 128)"
  by (simp add: oprfA_Success) (simp add: small_def sum_list_replicate z3_Encode_def)


lemma small_keys:
  "deriveHKDFKeys small (replicate 32 128) = Success (replicate 32 1, replicate 32 1)"
  by (simp add: deriveHKDFKeys_Success [OF small_output_lengths])
     (simp add: small_def sum_list_replicate)

lemma small_MarshalJSON:
  "MarshalJSON small \<lparr>cd_pu = Some a, cd_Pu = Some b, cd_Ps = Some c\<rparr> =
     Success (z3_Encode a @ z3_Encode b @ z3_Encode c)"
  by (simp add: MarshalJSON_def) (simp add: small_def)



lemma small_hmac_empty: "hmac_sha3_256 small (replicate 32 1) [] = replicate 32 32"
  by (simp add: small_def sum_list_replicate)

lemma small_registration:
  "Client_NewRegistration small (Some \<lparr>pr_ks = Some Z2, pr_Ps = Some Z1, pr_ps = None\<rparr>)
     ''alice'' ''correct horse battery staple'' (Some (replicate 64 2)) =
   Success \<lparr>reg_ID = ''alice'',
     reg_aci = \<lparr>Tag = XORKeyStream small (replicate 32 1) (replicate 16 0)
                        (z3_Encode Z2 @ z3_Encode Z2 @ z3_Encode Z1) @ replicate 32 32,
               Ciphertext = XORKeyStream small (replicate 32 1) (replicate 16 0)
                        (z3_Encode Z2 @ z3_Encode Z2 @ z3_Encode Z1)\<rparr>,
     reg_Pu = Some Z2\<rparr>"
proof -
  have b: "Element_ScalarBaseMult small Z2 = Z2"
    by (simp add: small_def)
  show ?thesis
    using Client_NewRegistration_Success [OF small_output_lengths _ small_keys,
        of "replicate 64 2" "''correct horse battery staple''"
           "\<lparr>pr_ks = Some Z2, pr_Ps = Some Z1, pr_ps = None\<rparr>"
           "z3_Encode Z2 @ z3_Encode Z2 @ z3_Encode Z1" "''alice''"]
    by (simp add: small_hash_password small_oprfA small_scalar_2 b small_MarshalJSON
        small_hmac_empty)
qed







section \<open>The claims\<close>

subsection \<open>C1: honest correctness\<close>

text \<open>
  C1. For every sid and password, and every choice of the six sampled scalars (each read
  of the entropy source succeeds with 64 bytes, and the blinding scalar \<open>r\<close> is not
  zero), the honest run succeeds: the server's \<open>NewRegistration\<close> on a server with no
  password file for the sid, the client's \<open>NewRegistration\<close> with the password, the
  server's \<open>Register\<close>, the client's \<open>NewSession\<close> with the password, the server's
  \<open>NewSession\<close> and the client's \<open>SessionKey\<close> with the password all return without
  error, and the session key of the server's \<open>NewSession\<close> is the session key of the
  client's \<open>SessionKey\<close>, of 32 bytes.
\<close>

theorem honest_correctness:
  assumes gl: "group_laws P" and ol: "output_lengths P"
    and ce: "canonical_encodings P" and jr: "json_roundtrip P"
    and fresh: "passwordFiles s0 sid = None"
    and sid: "client_Sid c0 = sid"
    and len: "length b_ks = 64" "length b_ps = 64" "length b_pu = 64"
             "length b_xu = 64" "length b_r = 64" "length b_xs = 64"
    and nz: "Scalar_FromUniformBytes P b_r \<noteq> Scalar_Zero P"
  shows "\<exists>s1 pr reg s2 c1 us ss SK fk2.
           Server_NewRegistration P s0 sid (Some b_ks) (Some b_ps) = Success (s1, pr)
         \<and> Client_NewRegistration P (Some pr) sid pw (Some b_pu) = Success reg
         \<and> Server_Register s1 (Some reg) = Success (s2, None)
         \<and> Client_NewSession P c0 pw (Some b_xu) (Some b_r) = Success (c1, us)
         \<and> Server_NewSession P s2 (Some us) (Some b_xs) = Success (ss, SK)
         \<and> Client_SessionKey P c1 (Some ss) pw = Success (SK, fk2)
         \<and> length SK = 32"
proof -
  define ks where "ks = Scalar_FromUniformBytes P b_ks"
  define ps where "ps = Scalar_FromUniformBytes P b_ps"
  define pu where "pu = Scalar_FromUniformBytes P b_pu"
  define xu where "xu = Scalar_FromUniformBytes P b_xu"
  define r where "r = Scalar_FromUniformBytes P b_r"
  define xs where "xs = Scalar_FromUniformBytes P b_xs"
  define Ps where "Ps = Element_ScalarBaseMult P ps"
  define Pu where "Pu = Element_ScalarBaseMult P pu"
  define x where "x = sha3_Sum512 P (bytes_of_string pw)"
  define H where "H = Element_FromUniformBytes P x"
  define rw where "rw = argon2_IDKey P
       (sha3_Sum512 P (x @ Element_Encode P (Element_ScalarMult P ks H)))
       [] argonTime argonMemory 4 32"
  define authKey where "authKey = take 32 (drop 32 (hkdf_sha3_512 P rw [] []))"
  define cipherKey where "cipherKey = take 32 (hkdf_sha3_512 P rw [] [])"
  define K where "K = keyexchange_spec P pu xu ps xs"
  define pr :: "('a, 'b) pendingRegistration"
    where "pr = \<lparr>pr_ks = Some ks, pr_Ps = Some Ps, pr_ps = None\<rparr>"
  define s1 where "s1 = s0\<lparr>pendingRegistrations := (pendingRegistrations s0)
                  (sid \<mapsto> \<lparr>pr_ks = Some ks, pr_Ps = Some Ps, pr_ps = Some ps\<rparr>)\<rparr>"
  have xlen: "length x = 64"
    using ol unfolding x_def output_lengths_def by blast
  have Klen: "length K = 32"
    using ol unfolding K_def keyexchange_spec_def output_lengths_def by blast
  have blen: "\<And>m. length (blake2b_256 P K m) = 32"
    using ol unfolding output_lengths_def by blast
  obtain toencrypt where
    m: "MarshalJSON P \<lparr>cd_pu = Some pu, cd_Pu = Some Pu, cd_Ps = Some Ps\<rparr> = Success toencrypt"
    and u: "UnmarshalJSON P toencrypt = Success \<lparr>cd_pu = Some pu, cd_Pu = Some Pu, cd_Ps = Some Ps\<rparr>"
    using MarshalJSON_UnmarshalJSON [OF ce jr] by blast
  define ctext where "ctext = XORKeyStream P cipherKey (replicate 16 0) toencrypt"
  define aci where "aci = \<lparr>Tag = ctext @ hmac_sha3_256 P authKey [], Ciphertext = ctext\<rparr>"
  define reg where "reg = \<lparr>reg_ID = sid, reg_aci = aci, reg_Pu = Some Pu\<rparr>"
  define pf where "pf = \<lparr>pf_ks = Some ks, pf_ps = Some ps, pf_Ps = Some Ps,
                       pf_Pu = Some Pu, pf_c = aci\<rparr>"
  define s2 where "s2 = s0\<lparr>passwordFiles := (passwordFiles s0)(sid \<mapsto> pf),
                           pendingRegistrations := (pendingRegistrations s0)(sid := None)\<rparr>"
  define c1 where "c1 = c0\<lparr>client_xu := Some xu, client_r := Some r\<rparr>"
  define Alpha where "Alpha = Element_ScalarMult P r H"
  define us :: "'b UsrSession"
    where "us = \<lparr>us_Alpha = Some Alpha, us_Xu = Some (Element_ScalarBaseMult P xu), us_Sid = sid\<rparr>"
  define ss :: "'b SvrSession"
    where "ss = \<lparr>ss_Beta = Some (Element_ScalarMult P ks Alpha),
                 ss_Xs = Some (Element_ScalarBaseMult P xs),
                 ss_fk1 = blake2b_256 P K [1], ss_c = aci\<rparr>"
  have keys: "deriveHKDFKeys P rw = Success (authKey, cipherKey)"
    unfolding authKey_def cipherKey_def by (rule deriveHKDFKeys_Success [OF ol])
  have oA: "oprfA P x (Some ks) = Success rw"
    unfolding rw_def H_def by (rule oprfA_Success [OF xlen])
  have 1: "Server_NewRegistration P s0 sid (Some b_ks) (Some b_ps) = Success (s1, pr)"
    by (simp add: Let_def Server_NewRegistration_def randomScalar_Some len s1_def pr_def ks_def
        ps_def Ps_def)
  have 2: "Client_NewRegistration P (Some pr) sid pw (Some b_pu) = Success reg"
    unfolding reg_def aci_def ctext_def Pu_def pu_def
    by (rule Client_NewRegistration_Success [OF ol len(3) keys])
       (simp_all add: pr_def oA [unfolded x_def] m [unfolded Pu_def pu_def])
  have 3: "Server_Register s1 (Some reg) = Success (s2, None)"
    by (simp add: Let_def Server_Register_def s1_def reg_def fresh s2_def pf_def)
  have 4: "Client_NewSession P c0 pw (Some b_xu) (Some b_r) = Success (c1, us)"
    using xlen
    by (simp add: Let_def Client_NewSession_def randomScalar_Some len element_FromUniformBytes_def
        ScalarMult_Some c1_def us_def Alpha_def H_def x_def xu_def r_def sid)
  have kS: "keServer P (Some ps) (Some xs) (Some Pu) (Some (Element_ScalarBaseMult P xu)) = Success K"
    unfolding K_def Pu_def by (rule keServer_value [OF gl])
  have kU: "keUser P (Some pu) (Some xu) (Some Ps) (Some (Element_ScalarBaseMult P xs)) = Success K"
    unfolding K_def Ps_def by (rule keUser_value [OF gl])
  have 5: "Server_NewSession P s2 (Some us) (Some b_xs) = Success (ss, blake2b_256 P K [0])"
    by (simp add: Let_def Server_NewSession_def us_def s2_def pf_def randomScalar_Some len
        ScalarMult_Some xs_def [symmetric] kS prf_Success Klen ss_def)
  have ub: "Element_ScalarMult P (Scalar_Invert P r) (Element_ScalarMult P ks Alpha) =
            Element_ScalarMult P ks H"
    unfolding Alpha_def by (rule unblind [OF gl nz [folded r_def]])
  have oB: "oprfB P (ss_Beta ss) (Some r) (sha3_Sum512 P (bytes_of_string pw)) = Success rw"
    by (simp add: ss_def oprfB_Success ub rw_def x_def)
  have 6: "Client_SessionKey P c1 (Some ss) pw =
             Success (blake2b_256 P K [0], blake2b_256 P K [2])"
  proof (rule Client_SessionKey_Success [OF ol _ _ oB keys])
    show "client_r c1 = Some r" by (simp add: c1_def)
    show "client_xu c1 = Some xu" by (simp add: c1_def)
    show "Tag (ss_c ss) = Ciphertext (ss_c ss) @ hmac_sha3_256 P authKey []"
      by (simp add: ss_def aci_def)
    show "UnmarshalJSON P (XORKeyStream P cipherKey (replicate 16 0) (Ciphertext (ss_c ss)))
            = Success \<lparr>cd_pu = Some pu, cd_Pu = Some Pu, cd_Ps = Some Ps\<rparr>"
      by (simp add: ss_def aci_def ctext_def XORKeyStream_involution [OF ol] u)
    show "keUser P (cd_pu \<lparr>cd_pu = Some pu, cd_Pu = Some Pu, cd_Ps = Some Ps\<rparr>) (Some xu)
            (cd_Ps \<lparr>cd_pu = Some pu, cd_Pu = Some Pu, cd_Ps = Some Ps\<rparr>) (ss_Xs ss) = Success K"
      by (simp add: ss_def kU)
    show "length K \<le> 64" by (simp add: Klen)
    show "ss_fk1 ss = blake2b_256 P K [1]" by (simp add: ss_def)
  qed
  from 1 2 3 4 5 6 blen show ?thesis by blast
qed

theorem honest_correctness_witness:
  "\<exists>s1 pr reg s2 c1 us ss SK fk2.
     Server_NewRegistration small NewServer ''alice''
       (Some (replicate 64 2)) (Some (replicate 64 1)) = Success (s1, pr)
   \<and> Client_NewRegistration small (Some pr) ''alice'' ''correct horse battery staple''
       (Some (replicate 64 2)) = Success reg
   \<and> Server_Register s1 (Some reg) = Success (s2, None)
   \<and> Client_NewSession small (NewClient ''alice'') ''correct horse battery staple''
       (Some (replicate 64 1)) (Some (replicate 64 2)) = Success (c1, us)
   \<and> Server_NewSession small s2 (Some us) (Some (replicate 64 2)) = Success (ss, SK)
   \<and> Client_SessionKey small c1 (Some ss) ''correct horse battery staple'' = Success (SK, fk2)
   \<and> length SK = 32"
  using honest_correctness [OF small_group_laws small_output_lengths
      small_canonical_encodings small_json_roundtrip,
      of NewServer "''alice''" "NewClient ''alice''"
         "replicate 64 2" "replicate 64 1" "replicate 64 2"
         "replicate 64 1" "replicate 64 2" "replicate 64 2"
         "''correct horse battery staple''"]
  by (simp add: NewServer_def NewClient_def small_scalar_2 small_Zero)

subsection \<open>C2: the tag of the envelope\<close>

text \<open>
  C2 says that the tag of the envelope made by the client's registration is the HMAC
  (SHA3-256, keyed by the \<open>authKey\<close> derived from \<open>rw\<close>) of the ciphertext, the
  ciphertext being the AES-CTR encryption of the plaintext under the derived \<open>cipherKey\<close>
  with an all-zero IV. What the code computes: the ciphertext is as C2 says, but
  \<open>authHmac.Sum(ctext)\<close> appends the MAC of the bytes written so far (none) to the
  ciphertext, so the tag is the ciphertext followed by the HMAC of the empty message.
  Whenever \<open>Client.NewRegistration\<close> succeeds with a ciphertext that is not empty, the
  tag differs from the HMAC of the ciphertext.
\<close>

theorem registration_tag_is_not_mac_of_ciphertext:
  assumes "output_lengths P"
    and "Client_NewRegistration P sinfo username password rd_pu = Success reg"
    and "Ciphertext (reg_aci reg) \<noteq> []"
  shows "\<exists>sinfo' pu rw authKey cipherKey toencrypt.
           sinfo = Some sinfo'
         \<and> randomScalar P rd_pu = Success pu
         \<and> oprfA P (sha3_Sum512 P (bytes_of_string password)) (pr_ks sinfo') = Success rw
         \<and> deriveHKDFKeys P rw = Success (authKey, cipherKey)
         \<and> MarshalJSON P \<lparr>cd_pu = Some pu, cd_Pu = Some (Element_ScalarBaseMult P pu),
                            cd_Ps = pr_Ps sinfo'\<rparr> = Success toencrypt
         \<and> Ciphertext (reg_aci reg) = XORKeyStream P cipherKey (replicate 16 0) toencrypt
         \<and> Tag (reg_aci reg) = Ciphertext (reg_aci reg) @ hmac_sha3_256 P authKey []
         \<and> Tag (reg_aci reg) \<noteq> hmac_sha3_256 P authKey (Ciphertext (reg_aci reg))"
proof -
  from assms(2) obtain pu sinfo' rw authKey cipherKey block toencrypt where
    pu: "randomScalar P rd_pu = Success pu"
    and si: "sinfo = Some sinfo'"
    and rw: "oprfA P (sha3_Sum512 P (bytes_of_string password)) (pr_ks sinfo') = Success rw"
    and keys: "deriveHKDFKeys P rw = Success (authKey, cipherKey)"
    and aes: "aes_NewCipher cipherKey = Success block"
    and m: "MarshalJSON P \<lparr>cd_pu = Some pu, cd_Pu = Some (Element_ScalarBaseMult P pu),
                            cd_Ps = pr_Ps sinfo'\<rparr> = Success toencrypt"
    and reg: "reg = \<lparr>reg_ID = username,
       reg_aci = \<lparr>Tag = XORKeyStream P block (replicate 16 0) toencrypt @
                        hmac_sha3_256 P authKey [],
                 Ciphertext = XORKeyStream P block (replicate 16 0) toencrypt\<rparr>,
       reg_Pu = Some (Element_ScalarBaseMult P pu)\<rparr>"
    by (auto simp add: Client_NewRegistration_def and_then_Success_iff deref_Success_iff
        Let_def aes_BlockSize_def hmac_New_def hmac_Sum_def)
  have block: "block = cipherKey"
    using aes by (rule aes_NewCipher_Success)
  have l: "\<And>m. length (hmac_sha3_256 P authKey m) = 32"
    using assms(1) unfolding output_lengths_def by blast
  have "length (Tag (reg_aci reg)) = length (Ciphertext (reg_aci reg)) + 32"
    by (simp add: reg l)
  moreover have "0 < length (Ciphertext (reg_aci reg))"
    using assms(3) by simp
  ultimately have "length (Tag (reg_aci reg)) \<noteq>
      length (hmac_sha3_256 P authKey (Ciphertext (reg_aci reg)))"
    by (simp add: l)
  then have ne: "Tag (reg_aci reg) \<noteq> hmac_sha3_256 P authKey (Ciphertext (reg_aci reg))"
    by auto
  have "Ciphertext (reg_aci reg) = XORKeyStream P cipherKey (replicate 16 0) toencrypt"
    and "Tag (reg_aci reg) = Ciphertext (reg_aci reg) @ hmac_sha3_256 P authKey []"
    by (simp_all add: reg block)
  with si pu rw keys m ne show ?thesis by blast
qed

theorem registration_tag_is_not_mac_of_ciphertext_witness:
  "\<exists>reg authKey.
     Client_NewRegistration small (Some \<lparr>pr_ks = Some Z2, pr_Ps = Some Z1, pr_ps = None\<rparr>)
       ''alice'' ''correct horse battery staple'' (Some (replicate 64 2)) = Success reg
   \<and> deriveHKDFKeys small (replicate 32 128) = Success (authKey, replicate 32 1)
   \<and> length (Ciphertext (reg_aci reg)) = 96
   \<and> Tag (reg_aci reg) = Ciphertext (reg_aci reg) @ hmac_sha3_256 small authKey []
   \<and> Tag (reg_aci reg) \<noteq> hmac_sha3_256 small authKey (Ciphertext (reg_aci reg))"
proof -
  define reg where "reg = \<lparr>reg_ID = ''alice'',
     reg_aci = \<lparr>Tag = XORKeyStream small (replicate 32 1) (replicate 16 0)
                        (z3_Encode Z2 @ z3_Encode Z2 @ z3_Encode Z1) @ replicate 32 32,
               Ciphertext = XORKeyStream small (replicate 32 1) (replicate 16 0)
                        (z3_Encode Z2 @ z3_Encode Z2 @ z3_Encode Z1)\<rparr>,
     reg_Pu = Some Z2\<rparr>"
  have r: "Client_NewRegistration small (Some \<lparr>pr_ks = Some Z2, pr_Ps = Some Z1, pr_ps = None\<rparr>)
       ''alice'' ''correct horse battery staple'' (Some (replicate 64 2)) = Success reg"
    unfolding reg_def by (rule small_registration)
  have l: "length (Ciphertext (reg_aci reg)) = 96"
    by (simp add: reg_def XORKeyStream_length [OF small_output_lengths] z3_Encode_length)
  then have ne: "Ciphertext (reg_aci reg) \<noteq> []"
    by auto
  show ?thesis
    using registration_tag_is_not_mac_of_ciphertext [OF small_output_lengths r ne] r l
    by (auto simp add: small_hash_password small_oprfA small_keys)
qed

subsection \<open>C4: the blinded and the direct evaluation of the OPRF agree\<close>

text \<open>
  C4. For every password, every OPRF key \<open>ks\<close> and every nonzero blinding scalar \<open>r\<close>
  sampled by \<open>Client.NewSession\<close>: with \<open>alpha\<close> the blinded element of the message of
  \<open>NewSession\<close> and \<open>beta\<close> the server's scalar multiplication of \<open>alpha\<close> by \<open>ks\<close>,
  \<open>oprfB\<close> on \<open>beta\<close>, the stored \<open>r\<close> and the SHA3-512 hash of the password returns
  what \<open>oprfA\<close> returns on that hash and \<open>ks\<close>: the same \<open>rw\<close>, of 32 bytes.
\<close>

theorem oprf_determinism:
  assumes "group_laws P" and "output_lengths P"
    and "length b_xu = 64" and "length b_r = 64"
    and "Scalar_FromUniformBytes P b_r \<noteq> Scalar_Zero P"
  shows "\<exists>c' us beta rw.
           Client_NewSession P c pw (Some b_xu) (Some b_r) = Success (c', us)
         \<and> client_r c' = Some (Scalar_FromUniformBytes P b_r)
         \<and> ScalarMult P (Some ks) (us_Alpha us) = Success beta
         \<and> oprfB P (Some beta) (client_r c') (sha3_Sum512 P (bytes_of_string pw)) = Success rw
         \<and> oprfA P (sha3_Sum512 P (bytes_of_string pw)) (Some ks) = Success rw
         \<and> length rw = 32"
proof -
  have len: "length (sha3_Sum512 P (bytes_of_string pw)) = 64"
    using assms(2) unfolding output_lengths_def by blast
  have alen: "\<And>h. length (argon2_IDKey P h [] argonTime argonMemory 4 32) = 32"
    using assms(2) unfolding output_lengths_def by blast
  show ?thesis
    by (simp add: Client_NewSession_def randomScalar_Some assms(3,4) len
        element_FromUniformBytes_def ScalarMult_Some oprfB_def oprfA_def Invert_Some
        unblind [OF assms(1) assms(5)] alen)
qed

theorem oprf_determinism_witness:
  "\<exists>c' us beta rw.
           Client_NewSession small (NewClient ''alice'') ''correct horse battery staple''
             (Some (replicate 64 1)) (Some (replicate 64 2)) = Success (c', us)
         \<and> client_r c' = Some Z2
         \<and> ScalarMult small (Some Z2) (us_Alpha us) = Success beta
         \<and> oprfB small (Some beta) (client_r c')
              (sha3_Sum512 small (bytes_of_string ''correct horse battery staple'')) = Success rw
         \<and> oprfA small (sha3_Sum512 small (bytes_of_string ''correct horse battery staple''))
              (Some Z2) = Success rw
         \<and> length rw = 32"
  using oprf_determinism [OF small_group_laws small_output_lengths,
      of "replicate 64 1" "replicate 64 2" "NewClient ''alice''"
         "''correct horse battery staple''" Z2]
  by (simp add: small_scalar_2 small_Zero)

subsection \<open>C5: both views of the key exchange\<close>

text \<open>
  C5. For all scalars \<open>ps\<close>, \<open>xs\<close>, \<open>pu\<close>, \<open>xu\<close>, the server's view
  \<open>keServer(ps, xs, g^pu, g^xu)\<close> and the client's view \<open>keUser(pu, xu, g^ps, g^xs)\<close>
  are equal, and both are the SHA3-256 hash of the element encodings concatenated in the
  order \<open>P\<^sub>u\<cdot>X\<^sub>s\<close>, \<open>X\<^sub>u\<cdot>P\<^sub>s\<close>, \<open>X\<^sub>u\<cdot>X\<^sub>s\<close>.
\<close>

theorem keServer_keUser_agree:
  assumes "group_laws P"
  shows "keServer P (Some ps) (Some xs)
           (Some (Element_ScalarBaseMult P pu)) (Some (Element_ScalarBaseMult P xu)) =
           Success (keyexchange_spec P pu xu ps xs)
       \<and> keUser P (Some pu) (Some xu)
           (Some (Element_ScalarBaseMult P ps)) (Some (Element_ScalarBaseMult P xs)) =
           Success (keyexchange_spec P pu xu ps xs)"
  using keServer_value [OF assms] keUser_value [OF assms] by simp

theorem keServer_keUser_agree_witness:
  "keServer small (Some Z2) (Some Z1)
           (Some (Element_ScalarBaseMult small Z2)) (Some (Element_ScalarBaseMult small Z1)) =
           Success (keyexchange_spec small Z2 Z1 Z2 Z1)
       \<and> keUser small (Some Z2) (Some Z1)
           (Some (Element_ScalarBaseMult small Z2)) (Some (Element_ScalarBaseMult small Z1)) =
           Success (keyexchange_spec small Z2 Z1 Z2 Z1)
       \<and> keyexchange_spec small Z2 Z1 Z2 Z1 = replicate 32 5"
  using keServer_keUser_agree [OF small_group_laws, of Z2 Z1 Z2 Z1]
  by (simp add: keyexchange_spec_def small_def z3_Encode_def sum_list_replicate)

subsection \<open>C6: a second finalize\<close>

text \<open>
  C6, as amended. If a sid is registered once (one begin, one successful \<open>Register\<close>),
  then \<open>Register\<close> with the same registration message again returns the error
  "no pending registration" and leaves the server as it is: the first \<open>Register\<close> deleted
  the pending entry, and the pending entry is looked up before the password file. The
  error "user already registered" is what \<open>Register\<close> returns when another begin for
  the sid comes before it.
\<close>

theorem second_finalize_no_pending:
  assumes "Server_Register s1 (Some reg) = Success (s2, None)"
  shows "Server_Register s2 (Some reg) =
           Success (s2, Some (errors_New ''no pending registration''))
       \<and> (\<forall>P b_ks b_ps s3 pr.
            Server_NewRegistration P s2 (reg_ID reg) (Some b_ks) (Some b_ps) = Success (s3, pr) \<longrightarrow>
            Server_Register s3 (Some reg) =
              Success (s2, Some (errors_New ''user already registered'')))"
proof (intro conjI allI impI)
  have np: "pendingRegistrations s2 (reg_ID reg) = None"
    and pf: "passwordFiles s2 (reg_ID reg) \<noteq> None"
    using Server_Register_ok [OF assms] by simp_all
  show "Server_Register s2 (Some reg) =
           Success (s2, Some (errors_New ''no pending registration''))"
    by (rule Server_Register_no_pending [OF np])
  fix P :: "('a, 'b) primitives" and b_ks b_ps s3 pr
  assume "Server_NewRegistration P s2 (reg_ID reg) (Some b_ks) (Some b_ps) = Success (s3, pr)"
  then obtain p where s3: "s3 = s2\<lparr>pendingRegistrations := (pendingRegistrations s2)(reg_ID reg \<mapsto> p)\<rparr>"
    by (auto simp add: Server_NewRegistration_def randomScalar_def scalar_FromUniformBytes_def
        Let_def split: if_splits)
  obtain f where f: "passwordFiles s2 (reg_ID reg) = Some f"
    using pf by blast
  have "s3\<lparr>pendingRegistrations := (pendingRegistrations s3)(reg_ID reg := None)\<rparr> = s2"
    using np by (simp add: s3 fun_upd_idem)
  moreover have "Server_Register s3 (Some reg) =
     Success (s3\<lparr>pendingRegistrations := (pendingRegistrations s3)(reg_ID reg := None)\<rparr>,
              Some (errors_New ''user already registered''))"
    by (rule Server_Register_registered [where p = p and f = f]) (simp_all add: s3 f)
  ultimately show "Server_Register s3 (Some reg) =
              Success (s2, Some (errors_New ''user already registered''))"
    by simp
qed

theorem second_finalize_no_pending_witness:
  "\<exists>s1 pr reg s2 s3 pr'.
     Server_NewRegistration small NewServer ''alice''
       (Some (replicate 64 2)) (Some (replicate 64 1)) = Success (s1, pr)
   \<and> Client_NewRegistration small (Some pr) ''alice'' ''correct horse battery staple''
       (Some (replicate 64 2)) = Success reg
   \<and> Server_Register s1 (Some reg) = Success (s2, None)
   \<and> Server_Register s2 (Some reg) =
       Success (s2, Some (errors_New ''no pending registration''))
   \<and> Server_NewRegistration small s2 ''alice''
       (Some (replicate 64 1)) (Some (replicate 64 1)) = Success (s3, pr')
   \<and> Server_Register s3 (Some reg) =
       Success (s2, Some (errors_New ''user already registered''))"
proof -
  have f: "passwordFiles (NewServer :: (z3, z3) Server) ''alice'' = None"
    by (simp add: NewServer_def)
  obtain s1 pr reg s2 where
    1: "Server_NewRegistration small NewServer ''alice''
          (Some (replicate 64 2)) (Some (replicate 64 1)) = Success (s1, pr)"
    and 2: "Client_NewRegistration small (Some pr) ''alice'' ''correct horse battery staple''
          (Some (replicate 64 2)) = Success reg"
    and id: "reg_ID reg = ''alice''"
    and 3: "Server_Register s1 (Some reg) = Success (s2, None)"
    using registration_run [OF small_output_lengths small_canonical_encodings
        small_json_roundtrip f, of "replicate 64 2" "replicate 64 1" "replicate 64 2"
        "''correct horse battery staple''"]
    by auto
  obtain s3 pr' where 5: "Server_NewRegistration small s2 ''alice''
       (Some (replicate 64 1)) (Some (replicate 64 1)) = Success (s3, pr')"
    by (simp add: Server_NewRegistration_def randomScalar_Some Let_def)
  note T = second_finalize_no_pending [OF 3]
  have 4: "Server_Register s2 (Some reg) =
       Success (s2, Some (errors_New ''no pending registration''))"
    using T by blast
  have n5: "Server_NewRegistration small s2 (reg_ID reg)
       (Some (replicate 64 1)) (Some (replicate 64 1)) = Success (s3, pr')"
    using 5 by (simp only: id)
  have 6: "Server_Register s3 (Some reg) =
       Success (s2, Some (errors_New ''user already registered''))"
    by (rule T [THEN conjunct2, rule_format, OF n5])
  from 1 2 3 4 5 6 show ?thesis by blast
qed

text \<open>The claim as stated (the second finalize returns the duplicate registration
  error) fails on the run of the specification's scenario.\<close>

theorem duplicate_registration_counterexample:
  "\<exists>s1 pr reg s2.
     Server_NewRegistration small NewServer ''alice''
       (Some (replicate 64 2)) (Some (replicate 64 1)) = Success (s1, pr)
   \<and> Client_NewRegistration small (Some pr) ''alice'' ''correct horse battery staple''
       (Some (replicate 64 2)) = Success reg
   \<and> Server_Register s1 (Some reg) = Success (s2, None)
   \<and> Server_Register s2 (Some reg) =
       Success (s2, Some (errors_New ''no pending registration''))
   \<and> errors_New ''no pending registration'' \<noteq> errors_New ''user already registered''"
proof -
  have f: "passwordFiles (NewServer :: (z3, z3) Server) ''alice'' = None"
    by (simp add: NewServer_def)
  obtain s1 pr reg s2 where
    1: "Server_NewRegistration small NewServer ''alice''
          (Some (replicate 64 2)) (Some (replicate 64 1)) = Success (s1, pr)"
    and 2: "Client_NewRegistration small (Some pr) ''alice'' ''correct horse battery staple''
          (Some (replicate 64 2)) = Success reg"
    and 3: "Server_Register s1 (Some reg) = Success (s2, None)"
    using registration_run [OF small_output_lengths small_canonical_encodings
        small_json_roundtrip f, of "replicate 64 2" "replicate 64 1" "replicate 64 2"
        "''correct horse battery staple''"]
    by auto
  have "pendingRegistrations s2 (reg_ID reg) = None"
    using Server_Register_ok [OF 3] by simp
  then have 4: "Server_Register s2 (Some reg) =
       Success (s2, Some (errors_New ''no pending registration''))"
    by (rule Server_Register_no_pending)
  have 5: "errors_New ''no pending registration'' \<noteq> errors_New ''user already registered''"
    by simp
  from 1 2 3 4 5 show ?thesis by blast
qed

subsection \<open>C7: the errors of SessionKey\<close>




subsection \<open>C8: the blinding scalar after SessionKey\<close>

text \<open>
  C8, as amended. After \<open>Client.SessionKey\<close> returns, on success or failure, the
  blinding scalar \<open>r\<close> that \<open>NewSession\<close> sampled and stored in the client is still
  held in the client, unchanged: \<open>SessionKey\<close> writes no field of the client, and no
  function calls \<open>clear\<close>.
\<close>

theorem SessionKey_keeps_blinding_scalar:
  assumes "Client_NewSession P c password rd_xu rd_r = Success (c1, us)"
  shows "\<exists>r. randomScalar P rd_r = Success r \<and> client_r c1 = Some r
           \<and> client_r (Client_SessionKey_state P c1 session password') = Some r"
  using assms
  apply (simp add: Client_NewSession_def Let_def Client_SessionKey_state_def)
  apply (cases "randomScalar P rd_xu"; simp)
  apply (cases "element_FromUniformBytes P (sha3_Sum512 P (bytes_of_string password))"; simp)
  apply (cases "randomScalar P rd_r"; simp add: ScalarMult_Some)
  apply auto
  done

theorem SessionKey_keeps_blinding_scalar_witness:
  "\<exists>r. randomScalar small (Some (replicate 64 2)) = Success r
       \<and> client_r \<lparr>client_Sid = ''alice'', client_xu = Some Z1, client_r = Some Z2\<rparr> = Some r
       \<and> client_r (Client_SessionKey_state small
            \<lparr>client_Sid = ''alice'', client_xu = Some Z1, client_r = Some Z2\<rparr>
            None ''correct horse battery staple'') = Some r"
  using SessionKey_keeps_blinding_scalar [OF small_NewSession] by simp

text \<open>The claim as stated (\<open>r\<close> is destroyed) fails: after \<open>NewSession\<close> and
  \<open>SessionKey\<close> on any session, the client still holds its nonzero \<open>r\<close>.\<close>

theorem blinding_scalar_destroyed_counterexample:
  "Client_NewSession small (NewClient ''alice'') ''correct horse battery staple''
     (Some (replicate 64 1)) (Some (replicate 64 2)) =
   Success (\<lparr>client_Sid = ''alice'', client_xu = Some Z1, client_r = Some Z2\<rparr>,
            \<lparr>us_Alpha = Some Z2, us_Xu = Some Z1, us_Sid = ''alice''\<rparr>)
   \<and> (\<forall>session.
        client_r (Client_SessionKey_state small
          \<lparr>client_Sid = ''alice'', client_xu = Some Z1, client_r = Some Z2\<rparr>
          session ''correct horse battery staple'') = Some Z2)
   \<and> Z2 \<noteq> Scalar_Zero small"
  by (simp add: small_NewSession Client_SessionKey_state_def small_Zero)

subsection \<open>C9: beginning a registration\<close>



subsection \<open>C10: SessionKey on a fresh client\<close>

text \<open>
  C10. On a fresh client (\<open>NewClient\<close>, no \<open>NewSession\<close> yet) the stored scalar \<open>r\<close>
  is nil, and \<open>Client.SessionKey\<close> panics with a nil dereference, for every session
  and password: it does not return an error. The panic is that of \<open>oprfB\<close>, which
  inverts \<open>r\<close> first.
\<close>

theorem SessionKey_fresh_client_panics:
  "Client_SessionKey P (NewClient sid) session password = Panic nil_dereference
   \<and> oprfB P B (client_r (NewClient sid)) x = Panic nil_dereference"
proof
  show "Client_SessionKey P (NewClient sid) session password = Panic nil_dereference"
    by (cases session)
       (simp_all add: Client_SessionKey_def NewClient_def oprfB_def Invert_def Let_def)
  show "oprfB P B (client_r (NewClient sid)) x = Panic nil_dereference"
    by (simp add: NewClient_def oprfB_def Invert_def)
qed

end
